theory Spec2Isabelle
  imports Main
begin

section \<open>JavaScript values, errors and buffers\<close>

text \<open>
  The values that reach \<^verbatim>\<open>src/types/message.js\<close>: \<open>undefined\<close>, integral numbers,
  numbers that are not integers (a fraction or \<open>NaN\<close>) and strings. A buffer is a
  JavaScript array of 8-bit integers, here a list of naturals below 256.
\<close>

datatype jsval = Undefined | Number int | Fractional | Str string

datatype error =
    TypeError string
  | EncodingRangeError
  | NotEncodable
  | MissingDataField string

datatype endian = LittleEndian | BigEndian

type_synonym buffer = "nat list"

type_synonym js_object = "(string \<times> jsval) list"

text \<open>Reading a property of an object literal: an absent property reads as \<open>undefined\<close>.\<close>

definition property :: "js_object \<Rightarrow> string \<Rightarrow> jsval" where
  "property obj k = (case map_of obj k of None \<Rightarrow> Undefined | Some v \<Rightarrow> v)"

text \<open>
  The expression \<^verbatim>\<open>x.length / 2\<close> of lines 48 and 71: reading \<open>length\<close> of
  \<open>undefined\<close> throws a TypeError, a string has its number of characters, a number has
  no \<open>length\<close> property and \<open>undefined / 2\<close> is \<open>NaN\<close>.
\<close>

fun length_div_2 :: "jsval \<Rightarrow> error + jsval" where
  "length_div_2 Undefined = Inl (TypeError ''Cannot read property length of undefined'')"
| "length_div_2 (Str s) = Inr (if even (length s) then Number (int (length s div 2)) else Fractional)"
| "length_div_2 (Number n) = Inr Fractional"
| "length_div_2 Fractional = Inr Fractional"

section \<open>Primitive codec\<close>

text \<open>
  The modules \<^verbatim>\<open>./primitive\<close>, \<^verbatim>\<open>./hexadecimal\<close>, \<^verbatim>\<open>./generic\<close> and
  \<^verbatim>\<open>./serialization\<close> that \<^verbatim>\<open>message.js\<close> imports are not among the sources. What
  \<^verbatim>\<open>message.js\<close> calls from them is modelled from the spec, in this section and the next.
\<close>

text \<open>
  Modelled from the spec: the fixed-width representation of an unsigned integer that
  \<^verbatim>\<open>./primitive\<close> (missing) writes (section 4.1). The byte order is one fixed choice for
  the whole system, which the spec does not name: it is the parameter \<open>e\<close> of every
  encoder below. \<open>le_bytes w v\<close> is the little-endian representation in \<open>w\<close> bytes.
\<close>

fun le_bytes :: "nat \<Rightarrow> nat \<Rightarrow> nat list" where
  "le_bytes 0 v = []"
| "le_bytes (Suc w) v = v mod 256 # le_bytes w (v div 256)"

text \<open>
  Modelled from the spec: the \<open>w\<close> bytes of an integer in the byte order \<open>e\<close> of the
  missing \<^verbatim>\<open>./primitive\<close> (section 4.1).
\<close>

definition uint_bytes :: "endian \<Rightarrow> nat \<Rightarrow> nat \<Rightarrow> nat list" where
  "uint_bytes e w v = (case e of LittleEndian \<Rightarrow> le_bytes w v | BigEndian \<Rightarrow> rev (le_bytes w v))"

text \<open>
  Modelled from the spec: the array write of the missing \<^verbatim>\<open>./primitive\<close> (section 4.1:
  the value is written starting at \<open>offset\<close>, growing the buffer if
  \<open>offset + width > buffer.length\<close>). Cells inside the buffer are overwritten; a gap
  between the end of the buffer and the offset, which no call below produces, would be
  zero-filled.
\<close>

definition write_at :: "buffer \<Rightarrow> nat \<Rightarrow> nat list \<Rightarrow> buffer" where
  "write_at buffer offset bs =
     take offset buffer @ replicate (offset - length buffer) 0 @ bs @ drop (offset + length bs) buffer"

text \<open>
  Modelled from the spec: \<open>serialize(value, buffer, offset)\<close> of the unsigned integer types
  of the missing \<^verbatim>\<open>./primitive\<close> (section 4.1): it returns the buffer with the value
  written at the offset, and fails on a value outside the representable range of the
  width, or on a value that is no integer.
\<close>

definition uint_serialize :: "nat \<Rightarrow> endian \<Rightarrow> jsval \<Rightarrow> buffer \<Rightarrow> nat \<Rightarrow> error + buffer" where
  "uint_serialize w e v buffer offset =
     (case v of
        Number n \<Rightarrow>
          if 0 \<le> n \<and> n < 256 ^ w then Inr (write_at buffer offset (uint_bytes e w (nat n)))
          else Inl EncodingRangeError
      | _ \<Rightarrow> Inl NotEncodable)"

text \<open>
  Modelled from the spec: \<open>primitive.Uint16\<close>, \<open>primitive.Uint32\<close> and \<open>primitive.Uint64\<close>
  (missing) are the unsigned integers of 2, 4 and 8 bytes (section 3).
\<close>

definition Uint16_serialize :: "endian \<Rightarrow> jsval \<Rightarrow> buffer \<Rightarrow> nat \<Rightarrow> error + buffer" where
  "Uint16_serialize = uint_serialize 2"

definition Uint32_serialize :: "endian \<Rightarrow> jsval \<Rightarrow> buffer \<Rightarrow> nat \<Rightarrow> error + buffer" where
  "Uint32_serialize = uint_serialize 4"

definition Uint64_serialize :: "endian \<Rightarrow> jsval \<Rightarrow> buffer \<Rightarrow> nat \<Rightarrow> error + buffer" where
  "Uint64_serialize = uint_serialize 8"

text \<open>
  Modelled from the spec: the values of the missing \<^verbatim>\<open>./hexadecimal\<close> types (hash, public
  key, signature) are hexadecimal strings (section 3: the length in bytes is half the
  length of the hex-encoded form). \<open>index_of\<close> and \<open>hex_digit\<close> read one digit.
\<close>

fun index_of :: "char \<Rightarrow> string \<Rightarrow> nat option" where
  "index_of c [] = None"
| "index_of c (d # ds) = (if c = d then Some 0 else map_option Suc (index_of c ds))"

definition hex_digit :: "char \<Rightarrow> nat option" where
  "hex_digit c =
     (case index_of c ''0123456789abcdef'' of
        Some n \<Rightarrow> Some n
      | None \<Rightarrow> map_option (\<lambda>n. n + 10) (index_of c ''ABCDEF''))"

text \<open>
  Modelled from the spec: the bytes of a hexadecimal string of the missing
  \<^verbatim>\<open>./hexadecimal\<close>, two digits to the byte, in the order of the string; a string of odd
  length or with another character has none.
\<close>

fun hex_bytes :: "string \<Rightarrow> nat list option" where
  "hex_bytes [] = Some []"
| "hex_bytes [c] = None"
| "hex_bytes (c # d # cs) =
     (case (hex_digit c, hex_digit d, hex_bytes cs) of
        (Some h, Some l, Some bs) \<Rightarrow> Some ((16 * h + l) # bs)
      | _ \<Rightarrow> None)"

text \<open>
  Modelled from the spec: \<open>serialize(value, buffer, offset)\<close> of a fixed-length hexadecimal
  type of \<open>w\<close> bytes of the missing \<^verbatim>\<open>./hexadecimal\<close> (section 4.1); a value that is not a
  hexadecimal string of \<open>w\<close> bytes cannot be encoded.
\<close>

definition hex_serialize :: "nat \<Rightarrow> jsval \<Rightarrow> buffer \<Rightarrow> nat \<Rightarrow> error + buffer" where
  "hex_serialize w v buffer offset =
     (case v of
        Str s \<Rightarrow>
          (case hex_bytes s of
             Some bs \<Rightarrow> if length bs = w then Inr (write_at buffer offset bs) else Inl NotEncodable
           | None \<Rightarrow> Inl NotEncodable)
      | _ \<Rightarrow> Inl NotEncodable)"

text \<open>
  Modelled from the spec: \<open>Hash\<close> and \<open>Digest\<close> of the missing \<^verbatim>\<open>./hexadecimal\<close>. \<open>Hash\<close>
  is the 32-byte value of the header's \<open>pk_data\<close> (section 4.4); \<open>Digest\<close> is the handle
  that line 115 applies to the signature, which the spec (section 4.4, step 6, and
  section 6) describes as appending the 64-byte signature.
\<close>

definition Hash_serialize :: "jsval \<Rightarrow> buffer \<Rightarrow> nat \<Rightarrow> error + buffer" where
  "Hash_serialize = hex_serialize 32"

definition Digest_serialize :: "jsval \<Rightarrow> buffer \<Rightarrow> nat \<Rightarrow> error + buffer" where
  "Digest_serialize = hex_serialize 64"

section \<open>Type handles, field descriptors and the generic record serialiser\<close>

text \<open>
  Modelled from the spec: the type handles of the missing \<^verbatim>\<open>./primitive\<close>,
  \<^verbatim>\<open>./hexadecimal\<close> and \<^verbatim>\<open>./generic\<close> (section 3): the fixed-size primitives, and
  variable-size types, whose encoding is known only at encoding time (here: a function
  from the value to its bytes).
\<close>

datatype type_handle =
    Uint16 | Uint32 | Uint64 | Hash | Digest
  | Variable "jsval \<Rightarrow> error + nat list"

text \<open>A field descriptor with both parts defined (section 3).\<close>

record field =
  name :: string
  type :: type_handle

text \<open>
  Modelled from the spec: \<open>size()\<close> of a type handle (missing modules; section 3): Uint16 = 2,
  Uint32 = 4, Uint64 = 8, hash = 32, signature = 64 bytes, and undefined for a
  variable-size type.
\<close>

fun type_size :: "type_handle \<Rightarrow> nat option" where
  "type_size Uint16 = Some 2"
| "type_size Uint32 = Some 4"
| "type_size Uint64 = Some 8"
| "type_size Hash = Some 32"
| "type_size Digest = Some 64"
| "type_size (Variable enc) = None"

text \<open>
  Modelled from the spec: \<open>serialize(value, buffer, offset)\<close> of a type handle (missing
  modules; section 3).
\<close>

fun type_serialize :: "endian \<Rightarrow> type_handle \<Rightarrow> jsval \<Rightarrow> buffer \<Rightarrow> nat \<Rightarrow> error + buffer" where
  "type_serialize e Uint16 v buffer offset = Uint16_serialize e v buffer offset"
| "type_serialize e Uint32 v buffer offset = Uint32_serialize e v buffer offset"
| "type_serialize e Uint64 v buffer offset = Uint64_serialize e v buffer offset"
| "type_serialize e Hash v buffer offset = Hash_serialize v buffer offset"
| "type_serialize e Digest v buffer offset = Digest_serialize v buffer offset"
| "type_serialize e (Variable enc) v buffer offset =
     (case enc v of Inl err \<Rightarrow> Inl err | Inr bs \<Rightarrow> Inr (write_at buffer offset bs))"

text \<open>
  Modelled from the spec: \<open>fieldIsFixed\<close> of the missing \<^verbatim>\<open>./generic\<close> (section 4.2): a
  field is fixed iff \<open>field.type.size()\<close> returns a defined value.
\<close>

definition fieldIsFixed :: "field \<Rightarrow> bool" where
  "fieldIsFixed f = (type_size (type f) \<noteq> None)"

text \<open>
  The size of a schema in the words of the spec (section 4.3): the sum of
  \<open>fieldIsFixed(f) ? f.type.size() : 8\<close> over all fields.
\<close>

definition spec_size :: "field list \<Rightarrow> nat" where
  "spec_size fs = sum_list (map (\<lambda>f. case type_size (type f) of Some n \<Rightarrow> n | None \<Rightarrow> 8) fs)"

text \<open>
  Modelled from the spec: the loop of \<open>serialize\<close> of the missing \<^verbatim>\<open>./serialization\<close>
  (section 4.3). For each field in declaration order, a fixed field is written at the
  cursor of the fixed segment; a variable field has its bytes appended to the
  variable segment and an 8-byte segment (4-byte offset, 4-byte length) written at the
  cursor. It fails if the data lacks a field or a value cannot be encoded.
\<close>

fun serialize_fields ::
  "endian \<Rightarrow> js_object \<Rightarrow> nat \<Rightarrow> field list \<Rightarrow> nat \<Rightarrow> buffer \<Rightarrow> buffer \<Rightarrow> error + buffer \<times> buffer" where
  "serialize_fields e data var_start [] cursor buffer tail = Inr (buffer, tail)"
| "serialize_fields e data var_start (f # fs) cursor buffer tail =
     (if property data (name f) = Undefined then Inl (MissingDataField (name f))
      else if fieldIsFixed f then
        (case type_serialize e (type f) (property data (name f)) buffer cursor of
           Inl err \<Rightarrow> Inl err
         | Inr buffer' \<Rightarrow>
             serialize_fields e data var_start fs (cursor + the (type_size (type f))) buffer' tail)
      else
        (case type_serialize e (type f) (property data (name f)) tail (length tail) of
           Inl err \<Rightarrow> Inl err
         | Inr tail' \<Rightarrow>
             (case Uint32_serialize e (Number (int (var_start + length tail))) buffer cursor of
                Inl err \<Rightarrow> Inl err
              | Inr buffer' \<Rightarrow>
                  (case Uint32_serialize e (Number (int (length tail' - length tail))) buffer' (cursor + 4) of
                     Inl err \<Rightarrow> Inl err
                   | Inr buffer'' \<Rightarrow>
                       serialize_fields e data var_start fs (cursor + 8) buffer'' tail'))))"

text \<open>
  Modelled from the spec: \<open>serialize(buffer, baseOffset, data, schema, includeVariableTail)\<close>
  of the missing \<^verbatim>\<open>./serialization\<close> (section 4.3): the variable segment is concatenated
  after the fixed one and the combined buffer is returned. The last argument is taken at
  its name; \<^verbatim>\<open>message.js\<close> passes \<open>true\<close>.
\<close>

definition serialization_serialize ::
  "endian \<Rightarrow> buffer \<Rightarrow> nat \<Rightarrow> js_object \<Rightarrow> field list \<Rightarrow> bool \<Rightarrow> error + buffer" where
  "serialization_serialize e buffer baseOffset data fs includeVariableTail =
     (case serialize_fields e data (spec_size fs) fs baseOffset buffer [] of
        Inl err \<Rightarrow> Inl err
      | Inr (fixed, tail) \<Rightarrow> Inr (if includeVariableTail then fixed @ tail else fixed))"

text \<open>
  Modelled from the spec: \<open>newType({fields}).serialize(data)\<close> of the missing \<^verbatim>\<open>./generic\<close>
  (sections 2 and 4.3): the full serialisation of one record into a new buffer.
\<close>

definition newType_serialize :: "endian \<Rightarrow> field list \<Rightarrow> js_object \<Rightarrow> error + buffer" where
  "newType_serialize e fs data = serialization_serialize e [] 0 data fs True"

section \<open>The message envelope of \<^verbatim>\<open>src/types/message.js\<close>\<close>

definition SIGNATURE_LENGTH :: int where
  "SIGNATURE_LENGTH = 64"

text \<open>
  The argument of \<open>newMessage\<close>. A field of \<open>type.fields\<close> may lack its \<open>name\<close> or its
  \<open>type\<close> (\<open>None\<close> is \<open>undefined\<close>), and \<open>type.fields\<close> itself may be absent.
\<close>

record raw_field =
  raw_name :: "string option"
  raw_type :: "type_handle option"

record type_descriptor =
  td_protocol_version :: jsval
  td_message_id :: jsval
  td_service_id :: jsval
  td_signature :: jsval
  td_fields :: "raw_field list option"
  td_public_key :: jsval
  td_consensus_tag :: jsval
  td_message_type :: jsval

text \<open>
  The state of a \<open>NewMessage\<close> object: the eight properties that the constructor assigns
  (lines 25 to 32), and the two properties that the methods read and the constructor does
  not assign: \<open>publicKey\<close> (lines 48, 49) and \<open>messageType\<close> (line 97). On an object as the
  constructor leaves it both read as \<open>undefined\<close>.
\<close>

record NewMessage =
  protocol_version :: jsval
  message_id :: jsval
  service_id :: jsval
  signature :: jsval
  message_fields :: "field list"
  public_key :: jsval
  consensus_tag :: jsval
  message_type :: jsval
  publicKey :: jsval
  messageType :: jsval

text \<open>
  The object that \<open>new\<close> allocates, before the constructor body runs: no property is set
  (\<open>message_fields\<close> is the property \<open>fields\<close>; read only on a constructed object, it is
  shown as the empty list).
\<close>

definition fresh_object :: NewMessage where
  "fresh_object =
     \<lparr>protocol_version = Undefined, message_id = Undefined, service_id = Undefined,
      signature = Undefined, message_fields = [], public_key = Undefined, consensus_tag = Undefined,
      message_type = Undefined, publicKey = Undefined, messageType = Undefined\<rparr>"

text \<open>
  Lines 16 to 23, \<open>type.fields.forEach\<close>: the fields are visited in order, the name is
  checked before the type, and the first failing check throws. A list that passes is the
  list of fields with both parts defined.
\<close>

fun check_fields :: "raw_field list \<Rightarrow> error + field list" where
  "check_fields [] = Inr []"
| "check_fields (f # fs) =
     (case raw_name f of
        None \<Rightarrow> Inl (TypeError ''Name prop is missed.'')
      | Some n \<Rightarrow>
          (case raw_type f of
             None \<Rightarrow> Inl (TypeError ''Type prop is missed.'')
           | Some t \<Rightarrow>
               (case check_fields fs of
                  Inl err \<Rightarrow> Inl err
                | Inr fs' \<Rightarrow> Inr (\<lparr>name = n, type = t\<rparr> # fs'))))"

text \<open>
  The constructor body (lines 15 to 33) run on the object \<open>this\<close>: the result is the error
  thrown, if any, and the state of \<open>this\<close> when the body is left.
\<close>

definition NewMessage_constructor :: "type_descriptor \<Rightarrow> NewMessage \<Rightarrow> error option \<times> NewMessage" where
  "NewMessage_constructor t this =
     (case td_fields t of
        None \<Rightarrow> (Some (TypeError ''Cannot read property forEach of undefined''), this)
      | Some raw \<Rightarrow>
          (case check_fields raw of
             Inl err \<Rightarrow> (Some err, this)
           | Inr fs \<Rightarrow>
               (None,
                this\<lparr>protocol_version := td_protocol_version t,
                     message_id := td_message_id t,
                     service_id := td_service_id t,
                     signature := td_signature t,
                     message_fields := fs,
                     public_key := td_public_key t,
                     consensus_tag := td_consensus_tag t,
                     message_type := td_message_type t\<rparr>)))"

text \<open>Lines 169 to 171: \<open>new NewMessage(type)\<close> yields the object unless the body throws.\<close>

definition newMessage :: "type_descriptor \<Rightarrow> error + NewMessage" where
  "newMessage t =
     (case NewMessage_constructor t fresh_object of
        (Some err, this) \<Rightarrow> Inl err
      | (None, this) \<Rightarrow> Inr this)"

text \<open>Lines 35 to 56.\<close>

definition transaction_MessageHead :: "field list" where
  "transaction_MessageHead =
     [\<lparr>name = ''protocol_version'', type = Uint16\<rparr>,
      \<lparr>name = ''pk_size'', type = Uint64\<rparr>,
      \<lparr>name = ''pk_data'', type = Hash\<rparr>,
      \<lparr>name = ''tx_tag'', type = Uint32\<rparr>,
      \<lparr>name = ''service_id'', type = Uint16\<rparr>,
      \<lparr>name = ''full_tx_len'', type = Uint64\<rparr>]"

definition transactionHeaderSerialization :: "endian \<Rightarrow> NewMessage \<Rightarrow> error + buffer" where
  "transactionHeaderSerialization e this =
     (case length_div_2 (publicKey this) of
        Inl err \<Rightarrow> Inl err
      | Inr pk_size \<Rightarrow>
          newType_serialize e transaction_MessageHead
            [(''protocol_version'', protocol_version this),
             (''pk_size'', pk_size),
             (''pk_data'', publicKey this),
             (''tx_tag'', Number 0),
             (''service_id'', service_id this),
             (''full_tx_len'', Number 0)])"

text \<open>Lines 58 to 79.\<close>

definition precommit_MessageHead :: "field list" where
  "precommit_MessageHead =
     [\<lparr>name = ''protocol_version'', type = Uint16\<rparr>,
      \<lparr>name = ''pk_size'', type = Uint64\<rparr>,
      \<lparr>name = ''pk_data'', type = Hash\<rparr>,
      \<lparr>name = ''consensus_tag'', type = Uint32\<rparr>,
      \<lparr>name = ''precommit_tag'', type = Uint32\<rparr>,
      \<lparr>name = ''precommit_len'', type = Uint64\<rparr>]"

definition precommitHeaderSerialization :: "endian \<Rightarrow> NewMessage \<Rightarrow> error + buffer" where
  "precommitHeaderSerialization e this =
     (case length_div_2 (public_key this) of
        Inl err \<Rightarrow> Inl err
      | Inr pk_size \<Rightarrow>
          newType_serialize e precommit_MessageHead
            [(''protocol_version'', protocol_version this),
             (''pk_size'', pk_size),
             (''pk_data'', public_key this),
             (''consensus_tag'', consensus_tag this),
             (''precommit_tag'', service_id this),
             (''precommit_len'', Number 0)])"

text \<open>Lines 81 to 88: \<open>this.fields.reduce\<close> from the accumulator 0.\<close>

definition size_message :: "NewMessage \<Rightarrow> nat" where
  "size_message this =
     foldl (\<lambda>accumulator f.
              if fieldIsFixed f then accumulator + the (type_size (type f))
              else accumulator + 8)
       0 (message_fields this)"

text \<open>
  Line 97: the header is chosen by comparing \<open>this.messageType\<close> with \<open>'precommit'\<close>; every
  other value, \<open>undefined\<close> included, takes the transaction header.
\<close>

definition header_serialization :: "endian \<Rightarrow> NewMessage \<Rightarrow> error + buffer" where
  "header_serialization e this =
     (if messageType this = Str ''precommit'' then precommitHeaderSerialization e this
      else transactionHeaderSerialization e this)"

text \<open>Lines 100 and 101: the body is serialised into an empty array at offset 0.\<close>

definition body_serialization :: "endian \<Rightarrow> NewMessage \<Rightarrow> js_object \<Rightarrow> error + buffer" where
  "body_serialization e this data = serialization_serialize e [] 0 data (message_fields this) True"

text \<open>Lines 106 to 108: \<open>body.forEach(element => buffer.push(element))\<close>.\<close>

definition push_all :: "buffer \<Rightarrow> nat list \<Rightarrow> buffer" where
  "push_all buffer body = foldl (\<lambda>b element. b @ [element]) buffer body"

text \<open>
  Lines 96 to 119. \<open>cutSignature\<close> is \<open>True\<close> for the JavaScript value \<open>true\<close> and \<open>False\<close>
  for any other argument, the omitted one included (line 113 tests \<open>!== true\<close>). Every
  throw of a callee leaves \<open>serialize\<close> at once. The logging of line 117 is not modelled.
\<close>

definition serialize :: "endian \<Rightarrow> NewMessage \<Rightarrow> js_object \<Rightarrow> bool \<Rightarrow> error + buffer" where
  "serialize e this data cutSignature =
     (case header_serialization e this of
        Inl err \<Rightarrow> Inl err
      | Inr buffer \<Rightarrow>
          (case body_serialization e this data of
             Inl err \<Rightarrow> Inl err
           | Inr body \<Rightarrow>
               (case Uint64_serialize e (Number (int (length body))) buffer 48 of
                  Inl err \<Rightarrow> Inl err
                | Inr patched \<Rightarrow>
                    (case Uint64_serialize e (Number SIGNATURE_LENGTH) (push_all patched body)
                            (length (push_all patched body)) of
                       Inl err \<Rightarrow> Inl err
                     | Inr marked \<Rightarrow>
                         if \<not> cutSignature then Digest_serialize (signature this) marked (length marked)
                         else Inr marked))))"

text \<open>
  The effects of a call of \<open>serialize\<close>. Arrays are objects on the heap, here a map from
  addresses to contents with the next free address; the state holds besides the object
  \<open>this\<close> and the lines written by \<open>console.log\<close> (each shown as the array that
  \<open>buffer.toString()\<close> renders).
\<close>

record js_state =
  this_object :: NewMessage
  heap :: "nat \<Rightarrow> buffer"
  next_address :: nat
  console :: "buffer list"

text \<open>A new array with the given contents: it gets the next free address.\<close>

definition new_array :: "buffer \<Rightarrow> js_state \<Rightarrow> nat \<times> js_state" where
  "new_array bs s =
     (next_address s,
      s\<lparr>heap := (heap s)(next_address s := bs), next_address := Suc (next_address s)\<rparr>)"

text \<open>An assignment to the cells of the array at an address (a write in place).\<close>

definition set_array :: "nat \<Rightarrow> buffer \<Rightarrow> js_state \<Rightarrow> js_state" where
  "set_array a bs s = s\<lparr>heap := (heap s)(a := bs)\<rparr>"

text \<open>
  Lines 96 to 119 with their effects: the header method returns a new array, which is the
  variable \<open>buffer\<close> (line 97); \<open>body\<close> is a new empty array (line 100), filled by the
  record serialiser (line 101); lines 104, 107, 111 and 115 write into the array \<open>buffer\<close>
  in place, reading \<open>body\<close> and \<open>buffer.length\<close> from the heap; line 117 logs the array;
  line 118 returns its address. No statement assigns a property of \<open>this\<close>. A throw
  leaves the call with the state reached so far.
\<close>

definition serialize_effect ::
  "endian \<Rightarrow> js_object \<Rightarrow> bool \<Rightarrow> js_state \<Rightarrow> (error + nat) \<times> js_state" where
  "serialize_effect e data cutSignature s =
     (case header_serialization e (this_object s) of
        Inl err \<Rightarrow> (Inl err, s)
      | Inr header \<Rightarrow>
          (let (buffer, s1) = new_array header s;
               (body, s2) = new_array [] s1
           in case serialization_serialize e (heap s2 body) 0 data
                     (message_fields (this_object s2)) True of
                Inl err \<Rightarrow> (Inl err, s2)
              | Inr filled \<Rightarrow>
                  (let s3 = set_array body filled s2
                   in case Uint64_serialize e (Number (int (length (heap s3 body))))
                             (heap s3 buffer) 48 of
                        Inl err \<Rightarrow> (Inl err, s3)
                      | Inr patched \<Rightarrow>
                          (let s4 = set_array buffer patched s3;
                               s5 = set_array buffer (push_all (heap s4 buffer) (heap s4 body)) s4
                           in case Uint64_serialize e (Number SIGNATURE_LENGTH) (heap s5 buffer)
                                     (length (heap s5 buffer)) of
                                Inl err \<Rightarrow> (Inl err, s5)
                              | Inr marked \<Rightarrow>
                                  (let s6 = set_array buffer marked s5
                                   in if \<not> cutSignature then
                                        (case Digest_serialize (signature (this_object s6))
                                                (heap s6 buffer) (length (heap s6 buffer)) of
                                           Inl err \<Rightarrow> (Inl err, s6)
                                         | Inr signed \<Rightarrow>
                                             (let s7 = set_array buffer signed s6
                                              in (Inr buffer,
                                                  s7\<lparr>console := console s7 @ [heap s7 buffer]\<rparr>)))
                                      else (Inr buffer,
                                            s6\<lparr>console := console s6 @ [heap s6 buffer]\<rparr>))))))"

text \<open>What a caller reads in the array that a call returned, in a given state.\<close>

definition result_bytes :: "js_state \<Rightarrow> error + nat \<Rightarrow> error + buffer" where
  "result_bytes s r = (case r of Inl err \<Rightarrow> Inl err | Inr a \<Rightarrow> Inr (heap s a))"

text \<open>Reading an unsigned integer back from its bytes, in the byte order \<open>e\<close>.\<close>

fun le_value :: "nat list \<Rightarrow> nat" where
  "le_value [] = 0"
| "le_value (b # bs) = b + 256 * le_value bs"

definition uint_value :: "endian \<Rightarrow> nat list \<Rightarrow> nat" where
  "uint_value e bs = (case e of LittleEndian \<Rightarrow> le_value bs | BigEndian \<Rightarrow> le_value (rev bs))"

section \<open>Example objects\<close>

definition example_public_key :: string where
  "example_public_key = ''f5864ab6a5a2190666b47c676bcf15a1f2f07703c5bcafb5749aa735ce8b7c36''"

definition example_signature :: string where
  "example_signature =
     ''a54dca182530bb1d6d132cded6237b2ed91e3f721fcb1971174494d6493c9d5c3460be31201e69fedaa0eee8b9997f5c7c2999fdafe593253cd654af4dfad714''"

definition other_signature :: string where
  "other_signature =
     ''a64dca182530bb1d6d132cded6237b2ed91e3f721fcb1971174494d6493c9d5c3460be31201e69fedaa0eee8b9997f5c7c2999fdafe593253cd654af4dfad714''"

text \<open>A variable-size type: a string, encoded as the codes of its characters.\<close>

definition example_variable_type :: type_handle where
  "example_variable_type =
     Variable (\<lambda>v. case v of Str s \<Rightarrow> Inr (map of_char s) | _ \<Rightarrow> Inl NotEncodable)"

text \<open>
  \<open>newMessage(example_type)\<close>: a type descriptor of kind \<open>'precommit'\<close> with one fixed and
  one variable field.
\<close>

definition example_type :: type_descriptor where
  "example_type =
     \<lparr>td_protocol_version = Number 0, td_message_id = Number 128, td_service_id = Number 258,
      td_signature = Str example_signature,
      td_fields = Some [\<lparr>raw_name = Some ''amount'', raw_type = Some Uint64\<rparr>,
                        \<lparr>raw_name = Some ''note'', raw_type = Some example_variable_type\<rparr>],
      td_public_key = Str example_public_key, td_consensus_tag = Number 2571,
      td_message_type = Str ''precommit''\<rparr>"

text \<open>A type descriptor whose second field has no \<open>type\<close>.\<close>

definition incomplete_type :: type_descriptor where
  "incomplete_type =
     \<lparr>td_protocol_version = Number 0, td_message_id = Number 128, td_service_id = Number 258,
      td_signature = Str example_signature,
      td_fields = Some [\<lparr>raw_name = Some ''amount'', raw_type = Some Uint64\<rparr>,
                        \<lparr>raw_name = Some ''note'', raw_type = None\<rparr>],
      td_public_key = Str example_public_key, td_consensus_tag = Number 2571,
      td_message_type = Str ''transaction''\<rparr>"

text \<open>
  An object on which \<open>serialize\<close> returns: the one that the constructor builds for a
  transaction, after the assignment \<open>message.publicKey = message.public_key\<close>.
\<close>

definition example_message :: NewMessage where
  "example_message =
     \<lparr>protocol_version = Number 0, message_id = Number 128, service_id = Number 258,
      signature = Str example_signature,
      message_fields = [\<lparr>name = ''amount'', type = Uint64\<rparr>,
                        \<lparr>name = ''note'', type = example_variable_type\<rparr>],
      public_key = Str example_public_key, consensus_tag = Number 2571,
      message_type = Str ''transaction'',
      publicKey = Str example_public_key, messageType = Undefined\<rparr>"

definition example_data :: js_object where
  "example_data = [(''amount'', Number 100), (''note'', Str ''hi'')]"

text \<open>A state with \<open>example_message\<close> as the object, no array and nothing logged.\<close>

definition example_state :: js_state where
  "example_state =
     \<lparr>this_object = example_message, heap = (\<lambda>a. []), next_address = 0, console = []\<rparr>"

text \<open>
  What \<open>serialize(example_data, true)\<close> returns on \<open>example_message\<close> in little-endian byte
  order, the bytes of \<open>example_signature\<close>, and what \<open>serialize(example_data)\<close> returns.
\<close>

definition example_preimage :: buffer where
  "example_preimage =
     [0, 0, 32, 0, 0, 0, 0, 0, 0, 0, 245, 134, 74, 182, 165, 162, 25, 6, 102, 180, 124,
      103, 107, 207, 21, 161, 242, 240, 119, 3, 197, 188, 175, 181, 116, 154, 167, 53,
      206, 139, 124, 54, 0, 0, 0, 0, 2, 1, 18, 0, 0, 0, 0, 0, 0, 0, 100, 0, 0, 0, 0, 0,
      0, 0, 16, 0, 0, 0, 2, 0, 0, 0, 104, 105, 64, 0, 0, 0, 0, 0, 0, 0]"

definition example_signature_bytes :: buffer where
  "example_signature_bytes =
     [165, 77, 202, 24, 37, 48, 187, 29, 109, 19, 44, 222, 214, 35, 123, 46, 217, 30, 63,
      114, 31, 203, 25, 113, 23, 68, 148, 214, 73, 60, 157, 92, 52, 96, 190, 49, 32, 30,
      105, 254, 218, 160, 238, 232, 185, 153, 127, 92, 124, 41, 153, 253, 175, 229, 147,
      37, 60, 214, 84, 175, 77, 250, 215, 20]"

definition example_output :: buffer where
  "example_output = example_preimage @ example_signature_bytes"

text \<open>
  The object that \<open>newMessage(example_type)\<close> returns, and a type descriptor of a kind
  that is neither \<open>'transaction'\<close> nor \<open>'precommit'\<close>.
\<close>

definition constructed_message :: NewMessage where
  "constructed_message =
     \<lparr>protocol_version = Number 0, message_id = Number 128, service_id = Number 258,
      signature = Str example_signature,
      message_fields = [\<lparr>name = ''amount'', type = Uint64\<rparr>,
                        \<lparr>name = ''note'', type = example_variable_type\<rparr>],
      public_key = Str example_public_key, consensus_tag = Number 2571,
      message_type = Str ''precommit'',
      publicKey = Undefined, messageType = Undefined\<rparr>"

definition unknown_kind_type :: type_descriptor where
  "unknown_kind_type = example_type\<lparr>td_message_type := Str ''vote''\<rparr>"

section \<open>Properties of the codec and of the record serialiser\<close>

lemma length_le_bytes: "length (le_bytes w v) = w"
  by (induction w arbitrary: v) simp_all

lemma length_uint_bytes: "length (uint_bytes e w v) = w"
  by (cases e) (simp_all add: uint_bytes_def length_le_bytes)

lemma le_value_le_bytes: "le_value (le_bytes w v) = v mod 256 ^ w"
proof (induction w arbitrary: v)
  case 0
  show ?case by simp
next
  case (Suc w)
  have "v mod (256 * 256 ^ w) = 256 * (v div 256 mod 256 ^ w) + v mod 256"
    by (rule mod_mult2_eq)
  with Suc show ?case by simp
qed

lemma uint_value_uint_bytes: "v < 256 ^ w \<Longrightarrow> uint_value e (uint_bytes e w v) = v"
  by (cases e) (simp_all add: uint_value_def uint_bytes_def le_value_le_bytes)

lemma length_write_at: "length (write_at b off bs) = max (length b) (off + length bs)"
  by (simp add: write_at_def)

lemma write_at_end: "write_at b (length b) bs = b @ bs"
  by (simp add: write_at_def)

lemma write_at_inside:
  "off + length bs \<le> length b \<Longrightarrow> write_at b off bs = take off b @ bs @ drop (off + length bs) b"
  by (simp add: write_at_def)

lemma nth_write_at_outside:
  assumes "off + length bs \<le> length b" and "i < length b" and "i < off \<or> off + length bs \<le> i"
  shows "write_at b off bs ! i = b ! i"
proof -
  have w: "write_at b off bs = take off b @ bs @ drop (off + length bs) b"
    using assms(1) by (rule write_at_inside)
  show ?thesis
  proof (cases "i < off")
    case True
    then show ?thesis using assms(1) by (simp add: w nth_append)
  next
    case False
    with assms(3) have ge: "off + length bs \<le> i" by simp
    then show ?thesis using assms(1,2) by (auto simp: w nth_append)
  qed
qed

lemma uint_serialize_Inr:
  assumes "uint_serialize w e v b off = Inr b'"
  shows "\<exists>n. v = Number (int n) \<and> n < 256 ^ w \<and> b' = write_at b off (uint_bytes e w n)"
proof (cases v)
  case (Number k)
  with assms have k: "0 \<le> k" "k < 256 ^ w" and b': "b' = write_at b off (uint_bytes e w (nat k))"
    by (auto simp: uint_serialize_def split: if_splits)
  from k have "int (nat k) < int (256 ^ w)" by simp
  then have "nat k < 256 ^ w" by (simp only: of_nat_less_iff)
  with k b' Number show ?thesis by (intro exI[of _ "nat k"]) simp
qed (use assms in \<open>simp_all add: uint_serialize_def\<close>)

lemma hex_serialize_Inr:
  assumes "hex_serialize w v b off = Inr b'"
  shows "\<exists>s bs. v = Str s \<and> hex_bytes s = Some bs \<and> length bs = w \<and> b' = write_at b off bs"
  using assms by (cases v) (auto simp: hex_serialize_def split: option.splits if_splits)

lemma uint_serialize_fixed:
  assumes "uint_serialize w e v b off = Inr b'"
  shows "\<exists>bs. length bs = w \<and> b' = write_at b off bs"
  using uint_serialize_Inr[OF assms] length_uint_bytes by blast

lemma hex_serialize_fixed:
  assumes "hex_serialize w v b off = Inr b'"
  shows "\<exists>bs. length bs = w \<and> b' = write_at b off bs"
  using hex_serialize_Inr[OF assms] by blast

lemma type_serialize_fixed:
  assumes "type_size t = Some w" and "type_serialize e t v b off = Inr b'"
  shows "\<exists>bs. length bs = w \<and> b' = write_at b off bs"
  using assms
  by (cases t)
     (auto simp: Uint16_serialize_def Uint32_serialize_def Uint64_serialize_def
                 Hash_serialize_def Digest_serialize_def
           dest: uint_serialize_fixed hex_serialize_fixed)

lemma serialize_fields_fixed:
  assumes "list_all fieldIsFixed fs"
    and "serialize_fields e data vs fs (length b) b tail = Inr (b', tail')"
  shows "length b' = length b + spec_size fs"
  using assms
proof (induction fs arbitrary: b)
  case Nil
  then show ?case by (simp add: spec_size_def)
next
  case (Cons f fs)
  from Cons.prems(1) have fixed: "fieldIsFixed f" and rest: "list_all fieldIsFixed fs" by simp_all
  then obtain w where w: "type_size (type f) = Some w" by (auto simp: fieldIsFixed_def)
  from Cons.prems(2) fixed w obtain b1 where
    b1: "type_serialize e (type f) (property data (name f)) b (length b) = Inr b1"
    and rec: "serialize_fields e data vs fs (length b + w) b1 tail = Inr (b', tail')"
    by (auto split: if_splits sum.splits)
  from type_serialize_fixed[OF w b1] obtain bs where bs: "length bs = w" "b1 = b @ bs"
    by (auto simp: write_at_end)
  then have "length b + w = length b1" by simp
  with rec have "serialize_fields e data vs fs (length b1) b1 tail = Inr (b', tail')" by simp
  from Cons.IH[OF rest this] have "length b' = length b1 + spec_size fs" .
  with bs w show ?case by (simp add: spec_size_def)
qed

lemma serialize_fields_fixed_tail:
  assumes "list_all fieldIsFixed fs"
    and "serialize_fields e data vs fs cursor b tail = Inr (b', tail')"
  shows "tail' = tail"
  using assms
  by (induction fs arbitrary: b cursor) (auto split: if_splits sum.splits)

lemma newType_serialize_fixed:
  assumes "list_all fieldIsFixed fs" and "newType_serialize e fs data = Inr h"
  shows "length h = spec_size fs"
proof -
  from assms(2) obtain fixed tail where
    s: "serialize_fields e data (spec_size fs) fs (length ([]::nat list)) [] [] = Inr (fixed, tail)"
    and h: "h = fixed @ tail"
    by (auto simp: newType_serialize_def serialization_serialize_def split: sum.splits)
  have "tail = []" using serialize_fields_fixed_tail[OF assms(1) s] .
  moreover have "length fixed = spec_size fs" using serialize_fields_fixed[OF assms(1) s] by simp
  ultimately show ?thesis using h by simp
qed

lemma length_transaction_header:
  assumes "transactionHeaderSerialization e this = Inr h"
  shows "length h = 56"
proof -
  have fixed: "list_all fieldIsFixed transaction_MessageHead"
    by (simp add: transaction_MessageHead_def fieldIsFixed_def)
  have sz: "spec_size transaction_MessageHead = 56"
    by (simp add: transaction_MessageHead_def spec_size_def)
  from assms obtain data where "newType_serialize e transaction_MessageHead data = Inr h"
    by (auto simp: transactionHeaderSerialization_def split: sum.splits)
  from newType_serialize_fixed[OF fixed this] sz show ?thesis by simp
qed

lemma length_precommit_header:
  assumes "precommitHeaderSerialization e this = Inr h"
  shows "length h = 58"
proof -
  have fixed: "list_all fieldIsFixed precommit_MessageHead"
    by (simp add: precommit_MessageHead_def fieldIsFixed_def)
  have sz: "spec_size precommit_MessageHead = 58"
    by (simp add: precommit_MessageHead_def spec_size_def)
  from assms obtain data where "newType_serialize e precommit_MessageHead data = Inr h"
    by (auto simp: precommitHeaderSerialization_def split: sum.splits)
  from newType_serialize_fixed[OF fixed this] sz show ?thesis by simp
qed

lemma length_header:
  assumes "header_serialization e this = Inr h"
  shows "56 \<le> length h"
  using assms length_transaction_header[of e this h] length_precommit_header[of e this h]
  by (auto simp: header_serialization_def split: if_splits)

lemma push_all_append: "push_all b body = b @ body"
  unfolding push_all_def by (induction body arbitrary: b) simp_all

section \<open>The stages of \<open>serialize\<close>\<close>

lemma serialize_Inr:
  assumes "serialize e this data cutSignature = Inr out"
  obtains header body patched marked where
    "header_serialization e this = Inr header"
    "body_serialization e this data = Inr body"
    "Uint64_serialize e (Number (int (length body))) header 48 = Inr patched"
    "Uint64_serialize e (Number SIGNATURE_LENGTH) (patched @ body) (length (patched @ body)) = Inr marked"
    "if cutSignature then out = marked
     else Digest_serialize (signature this) marked (length marked) = Inr out"
  using assms
  by (auto simp: serialize_def push_all_append split: sum.splits if_splits)

lemma patch_in_place:
  assumes "56 \<le> length header"
    and "Uint64_serialize e (Number (int n)) header 48 = Inr patched"
  shows "n < 256 ^ 8"
    and "patched = take 48 header @ uint_bytes e 8 n @ drop 56 header"
    and "length patched = length header"
    and "\<And>i. i < length header \<Longrightarrow> i < 48 \<or> 56 \<le> i \<Longrightarrow> patched ! i = header ! i"
proof -
  from uint_serialize_Inr[OF assms(2)[unfolded Uint64_serialize_def]]
  have n: "n < 256 ^ 8" and p: "patched = write_at header 48 (uint_bytes e 8 n)"
    by auto
  show "n < 256 ^ 8" by (rule n)
  have inside: "48 + length (uint_bytes e 8 n) \<le> length header"
    using assms(1) by (simp add: length_uint_bytes)
  show "patched = take 48 header @ uint_bytes e 8 n @ drop 56 header"
    using write_at_inside[OF inside] p by (simp add: length_uint_bytes)
  show "length patched = length header"
    using assms(1) by (simp add: p length_write_at length_uint_bytes)
  show "patched ! i = header ! i" if "i < length header" "i < 48 \<or> 56 \<le> i" for i
    using nth_write_at_outside[OF inside that(1)] that(2) p by (simp add: length_uint_bytes)
qed

lemma append_marker:
  assumes "Uint64_serialize e (Number SIGNATURE_LENGTH) b (length b) = Inr marked"
  shows "marked = b @ uint_bytes e 8 64"
proof -
  from uint_serialize_Inr[OF assms[unfolded Uint64_serialize_def]]
  obtain n where "Number SIGNATURE_LENGTH = Number (int n)"
    and m: "marked = write_at b (length b) (uint_bytes e 8 n)"
    by auto
  then have "n = 64" by (simp add: SIGNATURE_LENGTH_def)
  with m show ?thesis by (simp add: write_at_end)
qed

lemma append_signature:
  assumes "Digest_serialize v b (length b) = Inr out"
  shows "\<exists>s sg. v = Str s \<and> hex_bytes s = Some sg \<and> length sg = 64 \<and> out = b @ sg"
  using hex_serialize_Inr[OF assms[unfolded Digest_serialize_def]]
  by (auto simp: write_at_end)

lemma serialize_cut_signature:
  assumes "serialize e this data True = Inr preimage"
  shows "serialize e this data False = Digest_serialize (signature this) preimage (length preimage)"
  using assms by (auto simp: serialize_def split: sum.splits)

lemma serialize_signature_update:
  "serialize e (this\<lparr>signature := s\<rparr>) data True = serialize e this data True"
  by (simp add: serialize_def header_serialization_def body_serialization_def
        transactionHeaderSerialization_def precommitHeaderSerialization_def
      cong: sum.case_cong)

lemma header_serialization_kind:
  assumes "kind \<noteq> Str ''precommit''"
  shows "header_serialization e (this\<lparr>message_type := k, messageType := kind\<rparr>) =
         transactionHeaderSerialization e this"
  using assms
  by (simp add: header_serialization_def transactionHeaderSerialization_def cong: sum.case_cong)

lemma body_serialization_kind:
  "body_serialization e (this\<lparr>message_type := k, messageType := kind\<rparr>) data =
   body_serialization e this data"
  by (simp add: body_serialization_def)

lemma signature_kind:
  "signature (this\<lparr>message_type := k, messageType := kind\<rparr>) = signature this"
  by simp

lemma header_serialization_message_type:
  "header_serialization e (this\<lparr>message_type := k\<rparr>) = header_serialization e this"
  by (simp add: header_serialization_def transactionHeaderSerialization_def
        precommitHeaderSerialization_def cong: sum.case_cong)

lemma body_serialization_message_type:
  "body_serialization e (this\<lparr>message_type := k\<rparr>) data = body_serialization e this data"
  by (simp add: body_serialization_def)

lemma signature_message_type: "signature (this\<lparr>message_type := k\<rparr>) = signature this"
  by simp

lemma serialize_message_type_update:
  "serialize e (this\<lparr>message_type := k\<rparr>) data cutSignature = serialize e this data cutSignature"
  unfolding serialize_def header_serialization_message_type body_serialization_message_type
    signature_message_type ..

section \<open>The effects of \<open>serialize\<close>\<close>

lemma serialize_effect_pure:
  "fst (serialize_effect e data c s) =
     (case serialize e (this_object s) data c of Inl err \<Rightarrow> Inl err | Inr out \<Rightarrow> Inr (next_address s))"
  by (auto simp: serialize_effect_def serialize_def body_serialization_def new_array_def
        set_array_def Let_def split: sum.splits)

lemma serialize_effect_bytes:
  "result_bytes (snd (serialize_effect e data c s)) (fst (serialize_effect e data c s)) =
     serialize e (this_object s) data c"
  by (auto simp: serialize_effect_def serialize_def body_serialization_def new_array_def
        set_array_def result_bytes_def Let_def split: sum.splits)

lemma serialize_effect_this:
  "this_object (snd (serialize_effect e data c s)) = this_object s"
  by (auto simp: serialize_effect_def new_array_def set_array_def Let_def split: sum.splits)

lemma serialize_effect_next:
  "next_address s \<le> next_address (snd (serialize_effect e data c s))"
  by (auto simp: serialize_effect_def new_array_def set_array_def Let_def split: sum.splits)

lemma serialize_effect_frame:
  "a < next_address s \<Longrightarrow> heap (snd (serialize_effect e data c s)) a = heap s a"
  by (auto simp: serialize_effect_def new_array_def set_array_def Let_def split: sum.splits)

lemma serialize_effect_fresh:
  "fst (serialize_effect e data c s) = Inr a \<Longrightarrow>
     a = next_address s \<and> a < next_address (snd (serialize_effect e data c s))"
  by (auto simp: serialize_effect_def new_array_def set_array_def Let_def split: sum.splits if_splits)

section \<open>The constructor and \<open>size\<close>\<close>

lemma foldl_size_step:
  "foldl (\<lambda>accumulator f. if fieldIsFixed f then accumulator + the (type_size (type f))
                           else accumulator + 8) acc fs = acc + spec_size fs"
proof (induction fs arbitrary: acc)
  case Nil
  show ?case by (simp add: spec_size_def)
next
  case (Cons f fs)
  have "(if fieldIsFixed f then acc + the (type_size (type f)) else acc + 8) =
        acc + (case type_size (type f) of Some n \<Rightarrow> n | None \<Rightarrow> 8)"
    by (cases "type_size (type f)") (simp_all add: fieldIsFixed_def)
  with Cons.IH show ?case by (simp add: spec_size_def)
qed

lemma check_fields_incomplete:
  assumes "f \<in> set raw" and "raw_name f = None \<or> raw_type f = None"
  shows "\<exists>msg. check_fields raw = Inl (TypeError msg)"
  using assms
proof (induction raw)
  case Nil
  then show ?case by simp
next
  case (Cons g raw)
  show ?case
  proof (cases "raw_name g")
    case None
    then show ?thesis by simp
  next
    case n: (Some n)
    show ?thesis
    proof (cases "raw_type g")
      case None
      with n show ?thesis by simp
    next
      case t: (Some t)
      with n Cons.prems have "f \<in> set raw" by auto
      from Cons.IH[OF this Cons.prems(2)] obtain msg where "check_fields raw = Inl (TypeError msg)" ..
      with n t show ?thesis by simp
    qed
  qed
qed

lemma newMessage_Inr:
  assumes "newMessage t = Inr this"
  shows "publicKey this = Undefined" and "messageType this = Undefined"
    and "public_key this = td_public_key t" and "message_type this = td_message_type t"
  using assms
  by (auto simp: newMessage_def NewMessage_constructor_def fresh_object_def
           split: option.splits sum.splits)

section \<open>The example objects, evaluated\<close>

lemma newMessage_example_type: "newMessage example_type = Inr constructed_message"
  by (simp add: newMessage_def NewMessage_constructor_def example_type_def constructed_message_def
    fresh_object_def)

lemma newMessage_unknown_kind_type:
  "newMessage unknown_kind_type = Inr (constructed_message\<lparr>message_type := Str ''vote''\<rparr>)"
  by (simp add: newMessage_def NewMessage_constructor_def example_type_def constructed_message_def
    fresh_object_def unknown_kind_type_def)

lemma this_object_example_state: "this_object example_state = example_message"
  by (simp add: example_state_def)

lemma serialize_example_preimage:
  "serialize LittleEndian example_message example_data True = Inr example_preimage"
  by code_simp

lemma serialize_example_output:
  "serialize LittleEndian example_message example_data False = Inr example_output"
  by code_simp

section \<open>The claims\<close>

text \<open>
  C1: \<open>serialize\<close> chooses the header from the message kind fixed at construction, the
  precommit header for the kind \<open>'precommit'\<close>. The code does not: the constructor stores
  the kind in \<open>message_type\<close> and line 97 reads \<open>messageType\<close>. On the envelope that
  \<open>newMessage(example_type)\<close> returns, of kind \<open>'precommit'\<close>, \<open>serialize\<close> takes the
  transaction header path, whose result differs from the precommit header, and throws.
\<close>

theorem precommit_envelope_takes_transaction_header:
  "newMessage example_type = Inr constructed_message \<and>
   message_type constructed_message = Str ''precommit'' \<and>
   header_serialization LittleEndian constructed_message =
     transactionHeaderSerialization LittleEndian constructed_message \<and>
   header_serialization LittleEndian constructed_message \<noteq>
     precommitHeaderSerialization LittleEndian constructed_message \<and>
   serialize LittleEndian constructed_message example_data True =
     Inl (TypeError ''Cannot read property length of undefined'')"
proof -
  have "message_type constructed_message = Str ''precommit''"
    by (simp add: constructed_message_def)
  moreover have "header_serialization LittleEndian constructed_message =
     transactionHeaderSerialization LittleEndian constructed_message"
    by (simp add: header_serialization_def constructed_message_def)
  moreover have "header_serialization LittleEndian constructed_message \<noteq>
     precommitHeaderSerialization LittleEndian constructed_message"
    by code_simp
  moreover have "serialize LittleEndian constructed_message example_data True =
     Inl (TypeError ''Cannot read property length of undefined'')"
    by code_simp
  ultimately show ?thesis using newMessage_example_type by simp
qed

text \<open>
  C2: the precommit header has the layout of the transaction header, a 2-byte field at
  offset 46 and the 8-byte length at offset 48. The code declares \<open>precommit_tag\<close> as
  Uint32: on the envelope of \<open>newMessage(example_type)\<close> the precommit header has 58 bytes,
  the service id 258 in the four bytes from offset 46 and the length field from offset 50,
  where the transaction header of the same values has 56 bytes.
\<close>

theorem precommit_header_is_58_bytes:
  "newMessage example_type = Inr constructed_message \<and>
   precommitHeaderSerialization LittleEndian constructed_message =
     Inr [0, 0, 32, 0, 0, 0, 0, 0, 0, 0, 245, 134, 74, 182, 165, 162, 25, 6, 102, 180, 124,
          103, 107, 207, 21, 161, 242, 240, 119, 3, 197, 188, 175, 181, 116, 154, 167, 53,
          206, 139, 124, 54, 11, 10, 0, 0, 2, 1, 0, 0, 0, 0, 0, 0, 0, 0, 0, 0] \<and>
   transactionHeaderSerialization LittleEndian example_message =
     Inr [0, 0, 32, 0, 0, 0, 0, 0, 0, 0, 245, 134, 74, 182, 165, 162, 25, 6, 102, 180, 124,
          103, 107, 207, 21, 161, 242, 240, 119, 3, 197, 188, 175, 181, 116, 154, 167, 53,
          206, 139, 124, 54, 0, 0, 0, 0, 2, 1, 0, 0, 0, 0, 0, 0, 0, 0]"
proof -
  have "precommitHeaderSerialization LittleEndian constructed_message =
     Inr [0, 0, 32, 0, 0, 0, 0, 0, 0, 0, 245, 134, 74, 182, 165, 162, 25, 6, 102, 180, 124,
          103, 107, 207, 21, 161, 242, 240, 119, 3, 197, 188, 175, 181, 116, 154, 167, 53,
          206, 139, 124, 54, 11, 10, 0, 0, 2, 1, 0, 0, 0, 0, 0, 0, 0, 0, 0, 0]"
    by code_simp
  moreover have "transactionHeaderSerialization LittleEndian example_message =
     Inr [0, 0, 32, 0, 0, 0, 0, 0, 0, 0, 245, 134, 74, 182, 165, 162, 25, 6, 102, 180, 124,
          103, 107, 207, 21, 161, 242, 240, 119, 3, 197, 188, 175, 181, 116, 154, 167, 53,
          206, 139, 124, 54, 0, 0, 0, 0, 2, 1, 0, 0, 0, 0, 0, 0, 0, 0]"
    by code_simp
  ultimately show ?thesis using newMessage_example_type by simp
qed

text \<open>
  C3: for every schema (no field or more, fixed or variable) and every data object, once
  \<open>serialize\<close> has returned, the eight bytes at offset 48 of the output read as the byte
  length of the body, and the body is what follows the header in the output.
\<close>

theorem body_length_field:
  assumes "serialize e this data cutSignature = Inr out"
  shows "\<exists>header body.
           header_serialization e this = Inr header \<and>
           body_serialization e this data = Inr body \<and>
           take (length body) (drop (length header) out) = body \<and>
           uint_value e (take 8 (drop 48 out)) = length body"
proof -
  from assms obtain header body patched marked where
    h: "header_serialization e this = Inr header"
    and b: "body_serialization e this data = Inr body"
    and p: "Uint64_serialize e (Number (int (length body))) header 48 = Inr patched"
    and m: "Uint64_serialize e (Number SIGNATURE_LENGTH) (patched @ body) (length (patched @ body)) = Inr marked"
    and o: "if cutSignature then out = marked
            else Digest_serialize (signature this) marked (length marked) = Inr out"
    by (rule serialize_Inr)
  have len: "56 \<le> length header" using h by (rule length_header)
  note pp = patch_in_place[OF len p]
  have marked: "marked = patched @ body @ uint_bytes e 8 64"
    using append_marker[OF m] by simp
  obtain sg where out: "out = patched @ body @ uint_bytes e 8 64 @ sg"
  proof (cases cutSignature)
    case True
    with o marked have "out = patched @ body @ uint_bytes e 8 64 @ []" by simp
    then show ?thesis by (rule that)
  next
    case False
    with o have "Digest_serialize (signature this) marked (length marked) = Inr out" by simp
    from append_signature[OF this] obtain sg where "out = marked @ sg" by auto
    with marked have "out = patched @ body @ uint_bytes e 8 64 @ sg" by simp
    then show ?thesis by (rule that)
  qed
  have "take (length body) (drop (length header) out) = body"
    by (simp add: out pp(3)[symmetric])
  moreover have "take 8 (drop 48 out) = uint_bytes e 8 (length body)"
    using len by (simp add: out pp(2) length_uint_bytes)
  then have "uint_value e (take 8 (drop 48 out)) = length body"
    using pp(1) by (simp add: uint_value_uint_bytes)
  ultimately show ?thesis using h b by blast
qed

theorem body_length_field_witness:
  "serialize LittleEndian example_message example_data False = Inr example_output \<and>
   (\<exists>header body.
      header_serialization LittleEndian example_message = Inr header \<and>
      body_serialization LittleEndian example_message example_data = Inr body \<and>
      take (length body) (drop (length header) example_output) = body \<and>
      uint_value LittleEndian (take 8 (drop 48 example_output)) = length body)"
proof -
  have s: "serialize LittleEndian example_message example_data False = Inr example_output"
    unfolding example_output_def by code_simp
  from s body_length_field[OF s] show ?thesis by (rule conjI)
qed

text \<open>
  C4, as stated: \<open>serialize(data, false)\<close> is \<open>serialize(data, true)\<close> followed by the
  signature obtained by signing that preimage. No signing function of the preimage fits:
  two objects that differ in their stored \<open>signature\<close> only have the same preimage and
  different full outputs.
\<close>

theorem signature_not_computed_from_preimage:
  "\<not> (\<exists>sign secretKey. \<forall>this data preimage.
        serialize LittleEndian this data True = Inr preimage \<longrightarrow>
        serialize LittleEndian this data False = Inr (preimage @ sign (secretKey :: string) preimage))"
proof
  assume "\<exists>sign secretKey. \<forall>this data preimage.
        serialize LittleEndian this data True = Inr preimage \<longrightarrow>
        serialize LittleEndian this data False = Inr (preimage @ sign (secretKey :: string) preimage)"
  then obtain sign and secretKey :: string where
    claim: "\<And>this data preimage. serialize LittleEndian this data True = Inr preimage \<Longrightarrow>
        serialize LittleEndian this data False = Inr (preimage @ sign secretKey preimage)"
    by blast
  have other: "serialize LittleEndian (example_message\<lparr>signature := Str other_signature\<rparr>) example_data True =
      Inr example_preimage"
    using serialize_example_preimage by (simp add: serialize_signature_update)
  have differ: "serialize LittleEndian (example_message\<lparr>signature := Str other_signature\<rparr>) example_data False \<noteq>
      serialize LittleEndian example_message example_data False"
    by code_simp
  from claim[OF serialize_example_preimage] claim[OF other] differ show False by simp
qed

text \<open>
  C4, amended: when \<open>serialize(data, true)\<close> returns, \<open>serialize(data, false)\<close> is that
  preimage followed by the 64 bytes of the signature stored in the object, \<open>this.signature\<close>,
  a string of 128 hexadecimal digits.
\<close>

theorem serialize_appends_stored_signature:
  assumes "serialize e this data True = Inr preimage"
    and "signature this = Str s" and "hex_bytes s = Some sg" and "length sg = 64"
  shows "serialize e this data False = Inr (preimage @ sg)"
  using serialize_cut_signature[OF assms(1)] assms(2-4)
  by (simp add: Digest_serialize_def hex_serialize_def write_at_end)

theorem serialize_appends_stored_signature_witness:
  "serialize LittleEndian example_message example_data True = Inr example_preimage \<and>
   signature example_message = Str example_signature \<and>
   hex_bytes example_signature = Some example_signature_bytes \<and>
   length example_signature_bytes = 64 \<and>
   serialize LittleEndian example_message example_data False =
     Inr (example_preimage @ example_signature_bytes)"
proof -
  have s: "signature example_message = Str example_signature"
    by (simp add: example_message_def)
  have h: "hex_bytes example_signature = Some example_signature_bytes"
    by code_simp
  have l: "length example_signature_bytes = 64"
    by (simp add: example_signature_bytes_def)
  from serialize_example_preimage s h l
    serialize_appends_stored_signature[OF serialize_example_preimage s h l]
  show ?thesis by simp
qed

text \<open>
  C5: \<open>serialize(data, true)\<close> is deterministic and idempotent. From any state (whatever
  the heap holds and whatever was logged), a call and a second call with the same data
  return arrays with the same bytes, which are the bytes that \<open>serialize\<close> computes from
  the object and the data alone; the second call leaves the array of the first as it was,
  and the object is unchanged.
\<close>

theorem serialize_twice_same_bytes:
  "(let (r1, s1) = serialize_effect e data True s;
        (r2, s2) = serialize_effect e data True s1
    in result_bytes s1 r1 = serialize e (this_object s) data True \<and>
       result_bytes s2 r2 = result_bytes s1 r1 \<and>
       result_bytes s2 r1 = result_bytes s1 r1 \<and>
       this_object s2 = this_object s)"
proof -
  define r1 s1 where "r1 = fst (serialize_effect e data True s)"
    and "s1 = snd (serialize_effect e data True s)"
  define r2 s2 where "r2 = fst (serialize_effect e data True s1)"
    and "s2 = snd (serialize_effect e data True s1)"
  have this1: "this_object s1 = this_object s"
    unfolding s1_def by (rule serialize_effect_this)
  have this2: "this_object s2 = this_object s"
    unfolding s2_def using this1 by (simp add: serialize_effect_this)
  have b1: "result_bytes s1 r1 = serialize e (this_object s) data True"
    unfolding r1_def s1_def by (rule serialize_effect_bytes)
  have b2: "result_bytes s2 r2 = serialize e (this_object s) data True"
    unfolding r2_def s2_def using this1 by (simp add: serialize_effect_bytes)
  have kept: "result_bytes s2 r1 = result_bytes s1 r1"
  proof (cases r1)
    case (Inl err)
    then show ?thesis by (simp add: result_bytes_def)
  next
    case (Inr a)
    then have "a < next_address s1"
      using serialize_effect_fresh[of e data True s a] by (simp add: r1_def s1_def)
    then have "heap s2 a = heap s1 a"
      unfolding s2_def by (rule serialize_effect_frame)
    with Inr show ?thesis by (simp add: result_bytes_def)
  qed
  from b1 b2 kept this2 show ?thesis
    by (simp add: split_def Let_def r1_def s1_def r2_def s2_def)
qed

theorem serialize_twice_same_bytes_witness:
  "(let (r1, s1) = serialize_effect LittleEndian example_data True example_state;
        (r2, s2) = serialize_effect LittleEndian example_data True s1
    in result_bytes s1 r1 = Inr example_preimage \<and>
       result_bytes s2 r2 = Inr example_preimage \<and>
       result_bytes s2 r1 = Inr example_preimage \<and>
       this_object s2 = example_message)"
  using serialize_twice_same_bytes[of LittleEndian example_data example_state]
  by (simp add: split_def Let_def this_object_example_state serialize_example_preimage)

text \<open>
  C6: for every schema, \<open>size()\<close> is the sum over the fields of the fixed width of a fixed
  field and of 8 for a variable field.
\<close>

theorem size_message_is_sum_of_widths: "size_message this = spec_size (message_fields this)"
  by (simp add: size_message_def foldl_size_step)

text \<open>
  C7: constructing an envelope from a type descriptor with a field whose name or type is
  undefined throws, before any property of the new object is assigned, and \<open>newMessage\<close>
  returns no envelope.
\<close>

theorem constructor_rejects_incomplete_field:
  assumes "td_fields t = Some raw" and "f \<in> set raw" and "raw_name f = None \<or> raw_type f = None"
  shows "\<exists>msg. NewMessage_constructor t this = (Some (TypeError msg), this) \<and>
               newMessage t = Inl (TypeError msg)"
proof -
  from check_fields_incomplete[OF assms(2,3)] obtain msg where
    "check_fields raw = Inl (TypeError msg)" ..
  with assms(1) show ?thesis
    by (simp add: NewMessage_constructor_def newMessage_def)
qed

theorem constructor_rejects_incomplete_field_witness:
  "td_fields incomplete_type =
     Some [\<lparr>raw_name = Some ''amount'', raw_type = Some Uint64\<rparr>,
           \<lparr>raw_name = Some ''note'', raw_type = None\<rparr>] \<and>
   (\<exists>msg. NewMessage_constructor incomplete_type fresh_object = (Some (TypeError msg), fresh_object) \<and>
          newMessage incomplete_type = Inl (TypeError msg))"
proof -
  have f: "td_fields incomplete_type =
     Some [\<lparr>raw_name = Some ''amount'', raw_type = Some Uint64\<rparr>,
           \<lparr>raw_name = Some ''note'', raw_type = None\<rparr>]"
    by (simp add: incomplete_type_def)
  have m: "\<lparr>raw_name = Some ''note'', raw_type = None\<rparr> \<in>
        set [\<lparr>raw_name = Some ''amount'', raw_type = Some Uint64\<rparr>,
             \<lparr>raw_name = Some ''note'', raw_type = None\<rparr>]"
    by simp
  have u: "raw_name \<lparr>raw_name = Some ''note'', raw_type = None\<rparr> = None \<or>
           raw_type \<lparr>raw_name = Some ''note'', raw_type = None\<rparr> = None"
    by simp
  from f constructor_rejects_incomplete_field[OF f m u, of fresh_object] show ?thesis by (rule conjI)
qed

text \<open>
  C8: during \<open>serialize\<close> the output buffer is append-only except for one patch. The write
  of the body length at offset 48 keeps the length of the header and every byte outside
  the offsets 48 to 55; the pushes of the body, the write of the signature-length marker
  and the write of the signature each return the buffer they received followed by the new
  bytes.
\<close>

theorem serialize_buffer_append_only:
  assumes "serialize e this data cutSignature = Inr out"
  shows "\<exists>header body patched marked.
     header_serialization e this = Inr header \<and>
     body_serialization e this data = Inr body \<and>
     Uint64_serialize e (Number (int (length body))) header 48 = Inr patched \<and>
     length patched = length header \<and>
     (\<forall>i<length header. i < 48 \<or> 56 \<le> i \<longrightarrow> patched ! i = header ! i) \<and>
     push_all patched body = patched @ body \<and>
     Uint64_serialize e (Number SIGNATURE_LENGTH) (patched @ body) (length (patched @ body)) = Inr marked \<and>
     (\<exists>marker. length marker = 8 \<and> marked = patched @ body @ marker) \<and>
     (if cutSignature then out = marked
      else Digest_serialize (signature this) marked (length marked) = Inr out \<and>
           (\<exists>sg. length sg = 64 \<and> out = marked @ sg))"
proof -
  from assms obtain header body patched marked where
    h: "header_serialization e this = Inr header"
    and b: "body_serialization e this data = Inr body"
    and p: "Uint64_serialize e (Number (int (length body))) header 48 = Inr patched"
    and m: "Uint64_serialize e (Number SIGNATURE_LENGTH) (patched @ body) (length (patched @ body)) = Inr marked"
    and o: "if cutSignature then out = marked
            else Digest_serialize (signature this) marked (length marked) = Inr out"
    by (rule serialize_Inr)
  have len: "56 \<le> length header" using h by (rule length_header)
  note pp = patch_in_place[OF len p]
  have frame: "\<forall>i<length header. i < 48 \<or> 56 \<le> i \<longrightarrow> patched ! i = header ! i"
    using pp(4) by blast
  have "marked = (patched @ body) @ uint_bytes e 8 64" using m by (rule append_marker)
  then have marker: "\<exists>marker. length marker = 8 \<and> marked = patched @ body @ marker"
    by (simp add: length_uint_bytes)
  have last: "if cutSignature then out = marked
      else Digest_serialize (signature this) marked (length marked) = Inr out \<and>
           (\<exists>sg. length sg = 64 \<and> out = marked @ sg)"
  proof (cases cutSignature)
    case True
    with o show ?thesis by simp
  next
    case False
    with o have d: "Digest_serialize (signature this) marked (length marked) = Inr out" by simp
    from append_signature[OF d] have "\<exists>sg. length sg = 64 \<and> out = marked @ sg" by blast
    with d False show ?thesis by simp
  qed
  from h b p pp(3) frame push_all_append[of patched body] m marker last
  show ?thesis by blast
qed

theorem serialize_buffer_append_only_witness:
  "serialize LittleEndian example_message example_data False = Inr example_output \<and>
   (\<exists>header body patched marked.
     header_serialization LittleEndian example_message = Inr header \<and>
     body_serialization LittleEndian example_message example_data = Inr body \<and>
     Uint64_serialize LittleEndian (Number (int (length body))) header 48 = Inr patched \<and>
     length patched = length header \<and>
     (\<forall>i<length header. i < 48 \<or> 56 \<le> i \<longrightarrow> patched ! i = header ! i) \<and>
     push_all patched body = patched @ body \<and>
     Uint64_serialize LittleEndian (Number SIGNATURE_LENGTH) (patched @ body) (length (patched @ body)) = Inr marked \<and>
     (\<exists>marker. length marker = 8 \<and> marked = patched @ body @ marker) \<and>
     (if False then example_output = marked
      else Digest_serialize (signature example_message) marked (length marked) = Inr example_output \<and>
           (\<exists>sg. length sg = 64 \<and> example_output = marked @ sg)))"
  using serialize_example_output serialize_buffer_append_only[OF serialize_example_output]
  by (rule conjI)

text \<open>
  C9, as stated: serialising an envelope whose kind is neither \<open>'transaction'\<close> nor
  \<open>'precommit'\<close> fails with an unknown-kind error instead of producing bytes. On the
  envelope that \<open>newMessage\<close> builds for the kind \<open>'vote'\<close> the only error is the TypeError
  of the transaction header path, and on an object of that kind whose \<open>publicKey\<close> is
  assigned \<open>serialize\<close> returns bytes.
\<close>

theorem unknown_kind_is_not_rejected:
  "newMessage unknown_kind_type = Inr (constructed_message\<lparr>message_type := Str ''vote''\<rparr>) \<and>
   serialize LittleEndian (constructed_message\<lparr>message_type := Str ''vote''\<rparr>) example_data True =
     Inl (TypeError ''Cannot read property length of undefined'') \<and>
   serialize LittleEndian (example_message\<lparr>message_type := Str ''vote'', messageType := Str ''vote''\<rparr>)
       example_data True = Inr example_preimage"
proof -
  have "serialize LittleEndian (constructed_message\<lparr>message_type := Str ''vote''\<rparr>) example_data True =
     Inl (TypeError ''Cannot read property length of undefined'')"
    by code_simp
  moreover have "serialize LittleEndian (example_message\<lparr>message_type := Str ''vote'', messageType := Str ''vote''\<rparr>)
       example_data True = Inr example_preimage"
    by code_simp
  ultimately show ?thesis using newMessage_unknown_kind_type by simp
qed

text \<open>
  C9, amended: serialising an envelope whose kind is neither \<open>'transaction'\<close> nor
  \<open>'precommit'\<close> raises no unknown-kind error. On every object whose kind is not
  \<open>'precommit'\<close>, whether the kind is read in \<open>message_type\<close>, where the constructor puts
  it, or in \<open>messageType\<close>, where line 97 looks for it, \<open>serialize\<close> takes the transaction
  header path and gives the result that the same object of kind \<open>'transaction'\<close> gives.
\<close>

theorem unknown_kind_serialized_as_transaction:
  assumes "message_type this \<noteq> Str ''precommit''" and "messageType this \<noteq> Str ''precommit''"
  shows "header_serialization e this = transactionHeaderSerialization e this \<and>
         serialize e this data cutSignature =
           serialize e (this\<lparr>message_type := Str ''transaction''\<rparr>) data cutSignature \<and>
         serialize e this data cutSignature =
           serialize e (this\<lparr>message_type := Str ''transaction'', messageType := Str ''transaction''\<rparr>)
             data cutSignature"
proof -
  have h: "header_serialization e this = transactionHeaderSerialization e this"
    using assms(2) by (simp add: header_serialization_def)
  have t: "Str ''transaction'' \<noteq> Str ''precommit''" by simp
  have "serialize e (this\<lparr>message_type := Str ''transaction'', messageType := Str ''transaction''\<rparr>)
          data cutSignature = serialize e this data cutSignature"
    unfolding serialize_def header_serialization_kind[OF t] body_serialization_kind signature_kind h ..
  with h show ?thesis by (simp add: serialize_message_type_update)
qed

theorem unknown_kind_serialized_as_transaction_witness:
  "(message_type (constructed_message\<lparr>message_type := Str ''vote''\<rparr>) \<noteq> Str ''precommit'' \<and>
    messageType (constructed_message\<lparr>message_type := Str ''vote''\<rparr>) \<noteq> Str ''precommit'' \<and>
    serialize LittleEndian (constructed_message\<lparr>message_type := Str ''vote''\<rparr>) example_data True =
      serialize LittleEndian
        (constructed_message\<lparr>message_type := Str ''vote'', message_type := Str ''transaction''\<rparr>)
        example_data True) \<and>
   (message_type (example_message\<lparr>message_type := Str ''vote'', messageType := Str ''vote''\<rparr>) \<noteq>
      Str ''precommit'' \<and>
    messageType (example_message\<lparr>message_type := Str ''vote'', messageType := Str ''vote''\<rparr>) \<noteq>
      Str ''precommit'' \<and>
    serialize LittleEndian (example_message\<lparr>message_type := Str ''vote'', messageType := Str ''vote''\<rparr>)
      example_data True =
    serialize LittleEndian
      (example_message\<lparr>message_type := Str ''vote'', messageType := Str ''vote'',
                        message_type := Str ''transaction'', messageType := Str ''transaction''\<rparr>)
      example_data True)"
proof -
  have c1: "message_type (constructed_message\<lparr>message_type := Str ''vote''\<rparr>) \<noteq> Str ''precommit''"
    by simp
  have c2: "messageType (constructed_message\<lparr>message_type := Str ''vote''\<rparr>) \<noteq> Str ''precommit''"
    by (simp add: constructed_message_def)
  have e1: "message_type (example_message\<lparr>message_type := Str ''vote'', messageType := Str ''vote''\<rparr>) \<noteq>
      Str ''precommit''"
    by simp
  have e2: "messageType (example_message\<lparr>message_type := Str ''vote'', messageType := Str ''vote''\<rparr>) \<noteq>
      Str ''precommit''"
    by simp
  note c = unknown_kind_serialized_as_transaction[OF c1 c2, of LittleEndian example_data True]
  note e = unknown_kind_serialized_as_transaction[OF e1 e2, of LittleEndian example_data True]
  from c have c3: "serialize LittleEndian (constructed_message\<lparr>message_type := Str ''vote''\<rparr>) example_data True =
      serialize LittleEndian
        (constructed_message\<lparr>message_type := Str ''vote'', message_type := Str ''transaction''\<rparr>)
        example_data True" by blast
  from e have e3: "serialize LittleEndian (example_message\<lparr>message_type := Str ''vote'', messageType := Str ''vote''\<rparr>)
      example_data True =
    serialize LittleEndian
      (example_message\<lparr>message_type := Str ''vote'', messageType := Str ''vote'',
                        message_type := Str ''transaction'', messageType := Str ''transaction''\<rparr>)
      example_data True" by blast
  from c1 c2 c3 e1 e2 e3 show ?thesis by blast
qed

text \<open>
  C10: on every envelope built by \<open>newMessage\<close> the transaction header path reads
  \<open>this.publicKey\<close>, which the constructor never assigns (it assigns \<open>this.public_key\<close>):
  the property is undefined, so the computation of \<open>pk_size\<close> throws, and the public key
  given to the constructor has no influence on that path.
\<close>

theorem transaction_header_reads_unassigned_publicKey:
  assumes "newMessage t = Inr this"
  shows "public_key this = td_public_key t \<and> publicKey this = Undefined \<and>
         transactionHeaderSerialization e this =
           Inl (TypeError ''Cannot read property length of undefined'') \<and>
         (\<forall>k. transactionHeaderSerialization e (this\<lparr>public_key := k\<rparr>) =
               transactionHeaderSerialization e this)"
  using newMessage_Inr(1,3)[OF assms]
  by (simp add: transactionHeaderSerialization_def)

theorem transaction_header_reads_unassigned_publicKey_witness:
  "newMessage example_type = Inr constructed_message \<and>
   public_key constructed_message = td_public_key example_type \<and>
   publicKey constructed_message = Undefined \<and>
   transactionHeaderSerialization LittleEndian constructed_message =
     Inl (TypeError ''Cannot read property length of undefined'') \<and>
   (\<forall>k. transactionHeaderSerialization LittleEndian (constructed_message\<lparr>public_key := k\<rparr>) =
         transactionHeaderSerialization LittleEndian constructed_message)"
  using newMessage_example_type
    transaction_header_reads_unassigned_publicKey[OF newMessage_example_type, of LittleEndian]
  by (rule conjI)

end
